theory Spec2Isabelle
  imports Main "HOL-Library.Sublist"
begin

section \<open>The parser-writing agent: a shallow embedding of agent.py\<close>

text \<open>
  The agent talks to a language model, to the file system, to the PDF library and to the
  table library. Everything the code computes itself is a HOL function below; every
  collaborator whose code is not part of the repository is a field of the record
  \<open>env\<close>. The general theorems hold for every \<open>env\<close>; the examples run in a
  concrete one.

  Python strings are \<open>string\<close>, one \<open>char\<close> per character (the two symbols
  outside ASCII that the code prints are written as their UTF-8 bytes). A Python exception is
  a value \<open>exn\<close>: a function that can raise returns \<open>exn + 'a\<close>, with \<open>Inl\<close> the
  raised exception.
\<close>

subsection \<open>Exceptions\<close>

text \<open>
  The exception classes the code tells apart. \<open>NonException\<close> stands for the classes
  that derive from BaseException only (SystemExit, KeyboardInterrupt): a handler
  \<^verbatim>\<open>except Exception\<close> does not catch them.
\<close>

datatype exn_class =
    NameError
  | JSONDecodeError
  | AttributeError
  | TypeError
  | ValueError
  | ImportError
  | SyntaxError
  | OSError
  | OtherException
  | NonException

datatype exn = Exn exn_class string

fun exn_cls :: "exn \<Rightarrow> exn_class" where
  "exn_cls (Exn c m) = c"

text \<open>\<^verbatim>\<open>str(e)\<close>\<close>

fun str_exn :: "exn \<Rightarrow> string" where
  "str_exn (Exn c m) = m"

definition is_Exception :: "exn \<Rightarrow> bool" where
  "is_Exception e = (exn_cls e \<noteq> NonException)"

subsection \<open>Strings\<close>

text \<open>\<^verbatim>\<open>sep.join(xs)\<close>\<close>

fun join :: "string \<Rightarrow> string list \<Rightarrow> string" where
  "join sep [] = []"
| "join sep [x] = x"
| "join sep (x # y # ys) = x @ sep @ join sep (y # ys)"

text \<open>\<^verbatim>\<open>needle in hay\<close> on strings: \<open>needle\<close> occurs in \<open>hay\<close> as a contiguous run.\<close>

fun starts_with :: "string \<Rightarrow> string \<Rightarrow> bool" where
  "starts_with [] hay = True"
| "starts_with (n # ns) [] = False"
| "starts_with (n # ns) (h # hs) = (n = h \<and> starts_with ns hs)"

fun str_in :: "string \<Rightarrow> string \<Rightarrow> bool" where
  "str_in needle [] = (needle = [])"
| "str_in needle (h # hs) = (starts_with needle (h # hs) \<or> str_in needle hs)"

text \<open>\<^verbatim>\<open>s.upper()\<close> on ASCII text: the letters a to z become A to Z, every other
  character stays.\<close>

definition upper_char :: "char \<Rightarrow> char" where
  "upper_char c =
     (if 97 \<le> (of_char c :: nat) \<and> (of_char c :: nat) \<le> 122
      then char_of ((of_char c :: nat) - 32) else c)"

definition upper :: "string \<Rightarrow> string" where
  "upper s = map upper_char s"

text \<open>\<^verbatim>\<open>str(n)\<close> for a natural number, and the text of a shape tuple, \<^verbatim>\<open>(9, 5)\<close>.\<close>

definition digit_char :: "nat \<Rightarrow> char" where
  "digit_char d = ''0123456789'' ! d"

fun str_nat :: "nat \<Rightarrow> string" where
  "str_nat n =
     (if n < 10 then [digit_char n] else str_nat (n div 10) @ [digit_char (n mod 10)])"

fun str_shape :: "nat \<times> nat \<Rightarrow> string" where
  "str_shape (r, c) = ''('' @ str_nat r @ '', '' @ str_nat c @ '')''"

subsection \<open>JSON values\<close>

text \<open>
  What \<^verbatim>\<open>json.loads\<close> returns: None, a bool, an int, a float (kept as its text), a
  str, a list or a dict (its items in order, every key once).
\<close>

datatype json =
    JNull
  | JBool bool
  | JInt int
  | JFloat string
  | JStr string
  | JArr "json list"
  | JObj "(string \<times> json) list"

text \<open>\<^verbatim>\<open>type(v).__name__\<close>\<close>

fun type_name :: "json \<Rightarrow> string" where
  "type_name JNull = ''NoneType''"
| "type_name (JBool b) = ''bool''"
| "type_name (JInt i) = ''int''"
| "type_name (JFloat f) = ''float''"
| "type_name (JStr s) = ''str''"
| "type_name (JArr xs) = ''list''"
| "type_name (JObj kvs) = ''dict''"

text \<open>
  \<^verbatim>\<open>args.get(key, default)\<close>: only a dict has the method; on any other value the
  attribute lookup raises AttributeError.
\<close>

fun json_get :: "json \<Rightarrow> string \<Rightarrow> json \<Rightarrow> exn + json" where
  "json_get (JObj kvs) key dflt = Inr (case map_of kvs key of None \<Rightarrow> dflt | Some v \<Rightarrow> v)"
| "json_get v key dflt =
     Inl (Exn AttributeError
       ([CHR 0x27] @ type_name v @ [CHR 0x27] @ '' object has no attribute '' @
        [CHR 0x27] @ ''get'' @ [CHR 0x27]))"

subsection \<open>The PDF, the tables, the transcript\<close>

text \<open>
  A page of the opened PDF, as pdfplumber gives it: \<^verbatim>\<open>extract_text()\<close> is a str or
  None, \<^verbatim>\<open>extract_tables()\<close> is a list of tables or None; a table is a list of rows,
  a row a list of cells, a cell a str or None.
\<close>

type_synonym table = "string option list list"

record page =
  extract_text :: "string option"
  extract_tables :: "table list option"

record pdf_content =
  pdf_text :: string
  pdf_tables :: "table list"

record expected_info =
  info_columns :: "string list"
  info_shape :: "nat \<times> nat"
  info_dtypes :: "(string \<times> string) list"
  info_sample_rows :: "(string \<times> json) list list"

text \<open>What a tool handler returns: a str or one of the two dicts.\<close>

datatype tool_result =
    RStr string
  | RPdf pdf_content
  | RInfo expected_info

text \<open>
  A tool invocation of the model. \<open>tc_id = None\<close>: the object has no attribute
  \<^verbatim>\<open>id\<close>; otherwise the attribute is None or a str.
\<close>

datatype id_value = IdNone | IdStr string

record tool_call =
  tc_id :: "id_value option"
  tc_name :: string
  tc_arguments :: string

text \<open>
  A message of the transcript, a Python dict: the keys \<^verbatim>\<open>role\<close> and
  \<^verbatim>\<open>content\<close> are always there, the other three are optional (\<open>None\<close>: the dict
  has no such key).
\<close>

record message =
  msg_role :: string
  msg_content :: string
  msg_tool_calls :: "tool_call list option"
  msg_tool_call_id :: "id_value option"
  msg_name :: "string option"

text \<open>
  The model's answer, \<^verbatim>\<open>response.choices[0].message\<close>: \<^verbatim>\<open>content\<close> is a str or
  None, \<^verbatim>\<open>tool_calls\<close> a list (empty when the answer has none).
\<close>

record response =
  resp_content :: "string option"
  resp_tool_calls :: "tool_call list"

subsection \<open>The collaborators\<close>

text \<open>What \<^verbatim>\<open>importlib.util.spec_from_file_location\<close> can give.\<close>

datatype module_spec = NoSpec | SpecWithoutLoader | SpecWithLoader

text \<open>What the generated module's \<^verbatim>\<open>parse\<close> returns: a table, or some other
  object, on which \<^verbatim>\<open>.equals\<close> raises the given exception.\<close>

datatype 'df parse_value = Table 'df | NotATable exn

record ('df, 'mod) env =
  getenv_api_key :: "string option"
  chat_create :: "nat \<Rightarrow> message list \<Rightarrow> exn + response"
  json_loads :: "string \<Rightarrow> exn + json"
  json_dumps :: "tool_result \<Rightarrow> exn + string"
  makedirs_open :: "string \<Rightarrow> exn option"
  file_write :: "string \<Rightarrow> exn option"
  str_dict :: "tool_result \<Rightarrow> string"
  pdf_open :: "string \<Rightarrow> exn + page list"
  read_csv :: "string \<Rightarrow> exn + 'df"
  df_columns :: "'df \<Rightarrow> string list"
  df_shape :: "'df \<Rightarrow> nat \<times> nat"
  df_dtypes :: "'df \<Rightarrow> (string \<times> string) list"
  df_head_records :: "'df \<Rightarrow> (string \<times> json) list list"
  df_head_str :: "'df \<Rightarrow> string"
  df_equals :: "'df \<Rightarrow> 'df \<Rightarrow> bool"
  spec_from_file_location :: "string \<Rightarrow> string \<Rightarrow> module_spec"
  exec_module :: "string \<Rightarrow> exn + 'mod"
  call_parse :: "'mod \<Rightarrow> string \<Rightarrow> exn + 'df parse_value"

text \<open>
  The file system is a map from paths to contents; \<^verbatim>\<open>os.path.exists\<close> is
  membership in its domain. Whether writing succeeds is the environment's matter:
  \<open>makedirs_open path\<close> is the exception that creating the directory or opening the
  file raises, if any, and \<open>file_write text\<close> the exception that writing the text to
  the opened file raises, if any (the text cannot be encoded, the disk is full).
\<close>

type_synonym files = "string \<rightharpoonup> string"

subsection \<open>extract_pdf_content\<close>

text \<open>The loop over the pages that collects the tables, \<open>tables\<close> the accumulator.\<close>

fun collect_tables :: "page list \<Rightarrow> table list \<Rightarrow> table list" where
  "collect_tables [] tables = tables"
| "collect_tables (p # ps) tables =
     (case extract_tables p of
        None \<Rightarrow> collect_tables ps tables
      | Some page_tables \<Rightarrow>
          if page_tables \<noteq> [] then collect_tables ps (tables @ page_tables)
          else collect_tables ps tables)"

text \<open>\<^verbatim>\<open>page.extract_text() or ''\<close>\<close>

definition text_or_empty :: "page \<Rightarrow> string" where
  "text_or_empty p =
     (case extract_text p of None \<Rightarrow> [] | Some t \<Rightarrow> if t \<noteq> [] then t else [])"

definition extract_pdf_content :: "('df, 'mod) env \<Rightarrow> string \<Rightarrow> exn + pdf_content" where
  "extract_pdf_content E pdf_path =
     (case pdf_open E pdf_path of
        Inl e \<Rightarrow> Inl e
      | Inr pages \<Rightarrow>
          Inr \<lparr>pdf_text = join [CHR 0x0A] (map text_or_empty pages),
               pdf_tables = collect_tables pages []\<rparr>)"

subsection \<open>get_expected_info\<close>

definition get_expected_info :: "('df, 'mod) env \<Rightarrow> string \<Rightarrow> exn + expected_info" where
  "get_expected_info E csv_path =
     (case read_csv E csv_path of
        Inl e \<Rightarrow> Inl e
      | Inr df \<Rightarrow>
          Inr \<lparr>info_columns = df_columns E df,
               info_shape = df_shape E df,
               info_dtypes = df_dtypes E df,
               info_sample_rows = df_head_records E df\<rparr>)"

subsection \<open>write_code\<close>

definition parser_path_of :: "string \<Rightarrow> string" where
  "parser_path_of target = ''custom_parsers/'' @ target @ ''_parser.py''"

text \<open>
  \<^verbatim>\<open>open(path, 'w')\<close> creates or empties the file; \<^verbatim>\<open>f.write(code)\<close> then stores
  a str and raises TypeError on anything else. When the write raises, the emptied file
  stays behind.
\<close>

definition write_code ::
  "('df, 'mod) env \<Rightarrow> string \<Rightarrow> json \<Rightarrow> files \<Rightarrow> (exn + string) \<times> files" where
  "write_code E target code fs =
     (let path = parser_path_of target in
      case makedirs_open E path of
        Some e \<Rightarrow> (Inl e, fs)
      | None \<Rightarrow>
          (case code of
             JStr s \<Rightarrow>
               (case file_write E s of
                  Some e \<Rightarrow> (Inl e, fs(path \<mapsto> []))
                | None \<Rightarrow> (Inr (''Written to '' @ path), fs(path \<mapsto> s)))
           | _ \<Rightarrow>
               (Inl (Exn TypeError (''write() argument must be str, not '' @ type_name code)),
                fs(path \<mapsto> []))))"

subsection \<open>run_test\<close>

text \<open>The second \<^verbatim>\<open>try\<close> of run_test: parse, read the reference, compare.\<close>

definition compare_tables ::
  "('df, 'mod) env \<Rightarrow> 'mod \<Rightarrow> string \<Rightarrow> string \<Rightarrow> exn + string" where
  "compare_tables E module pdf_path csv_path =
     (case call_parse E module pdf_path of
        Inl e \<Rightarrow> Inl e
      | Inr parsed \<Rightarrow>
          (case read_csv E csv_path of
             Inl e \<Rightarrow> Inl e
           | Inr expected_df \<Rightarrow>
               (case parsed of
                  NotATable e \<Rightarrow> Inl e
                | Table parsed_df \<Rightarrow>
                    if df_equals E parsed_df expected_df then Inr ''TEST PASSED''
                    else Inr (''TEST FAILED: DataFrames do not match. Parsed shape: '' @
                      str_shape (df_shape E parsed_df) @ '', Expected shape: '' @
                      str_shape (df_shape E expected_df) @
                      ''. Sample diff: Parsed head:'' @ [CHR 0x0A] @
                      df_head_str E parsed_df @ [CHR 0x0A] @ ''Expected head:'' @
                      [CHR 0x0A] @ df_head_str E expected_df))))"

definition run_test ::
  "('df, 'mod) env \<Rightarrow> string \<Rightarrow> string \<Rightarrow> string \<Rightarrow> files \<Rightarrow> exn + string" where
  "run_test E target pdf_path csv_path fs =
     (let parser_path = parser_path_of target in
      case fs parser_path of
        None \<Rightarrow> Inr ''Parser file does not exist.''
      | Some source \<Rightarrow>
          (case spec_from_file_location E (target @ ''_parser'') parser_path of
             NoSpec \<Rightarrow> Inr (''Failed to load module spec for '' @ parser_path @ ''.'')
           | SpecWithoutLoader \<Rightarrow> Inr (''No loader available for '' @ parser_path @ ''.'')
           | SpecWithLoader \<Rightarrow>
               (case exec_module E source of
                  Inl e \<Rightarrow>
                    if exn_cls e = NameError
                    then Inr (''TEST FAILED: Parser module has invalid imports: '' @ str_exn e)
                    else Inl e
                | Inr module \<Rightarrow>
                    (case compare_tables E module pdf_path csv_path of
                       Inl e \<Rightarrow>
                         if is_Exception e then Inr (''TEST FAILED: '' @ str_exn e)
                         else Inl e
                     | Inr verdict \<Rightarrow> Inr verdict))))"

subsection \<open>The state of a run\<close>

text \<open>
  What run_agent changes while it runs: the transcript \<^verbatim>\<open>messages\<close>, the counter
  \<^verbatim>\<open>attempts\<close>, the files on disk, and the lines printed so far (one entry per call
  of \<^verbatim>\<open>print\<close>). Standard output is taken to accept every line.
\<close>

record state =
  messages :: "message list"
  attempts :: nat
  disk :: files
  stdout :: "string list"

definition append_message :: "message \<Rightarrow> state \<Rightarrow> state" where
  "append_message m st = st\<lparr>messages := messages st @ [m]\<rparr>"

definition print :: "string \<Rightarrow> state \<Rightarrow> state" where
  "print line st = st\<lparr>stdout := stdout st @ [line]\<rparr>"

subsection \<open>The tool executors\<close>

text \<open>
  tool_write_parser_code. The counter it receives is a copy: the caller sees the new value
  only in the returned pair, so the second component of the sum carries it, and an
  exception carries none.
\<close>

definition tool_write_parser_code ::
  "('df, 'mod) env \<Rightarrow> string \<Rightarrow> tool_call \<Rightarrow> nat \<Rightarrow> files \<Rightarrow> (exn + string \<times> nat) \<times> files" where
  "tool_write_parser_code E target tc attempts0 fs =
     (let attempts1 = attempts0 + 1 in
      if attempts1 > 3 then (Inr (''Max attempts (3) reached. Cannot write more code.'', attempts1), fs)
      else
        (case (case json_loads E (tc_arguments tc) of
                 Inl e \<Rightarrow> Inl e
               | Inr args \<Rightarrow> json_get args ''code'' (JStr [])) of
           Inl e \<Rightarrow>
             if exn_cls e = JSONDecodeError \<or> exn_cls e = AttributeError
             then (Inr (''Failed to parse tool arguments: '' @ str_exn e, attempts1), fs)
             else (Inl e, fs)
         | Inr code \<Rightarrow>
             (case write_code E target code fs of
                (Inl e, fs') \<Rightarrow> (Inl e, fs')
              | (Inr written, fs') \<Rightarrow> (Inr (''Parser code written successfully.'', attempts1), fs'))))"

text \<open>The four entries of \<^verbatim>\<open>tool_map\<close>.\<close>

datatype tool =
    Tool_get_pdf_content
  | Tool_get_expected_info
  | Tool_write_parser_code
  | Tool_run_test

definition tool_map :: "string \<rightharpoonup> tool" where
  "tool_map = map_of
     [(''get_pdf_content'', Tool_get_pdf_content),
      (''get_expected_info'', Tool_get_expected_info),
      (''write_parser_code'', Tool_write_parser_code),
      (''run_test'', Tool_run_test)]"

text \<open>
  \<^verbatim>\<open>tool_map[func_name](tool_call)\<close>, the call with one argument. The loop makes it
  only for a name other than write_parser_code; the executor of that name takes two
  arguments, and Python would raise TypeError on a call with one.
\<close>

fun call_tool ::
  "('df, 'mod) env \<Rightarrow> string \<Rightarrow> string \<Rightarrow> string \<Rightarrow> files \<Rightarrow> tool \<Rightarrow> exn + tool_result" where
  "call_tool E target pdf_path csv_path fs Tool_get_pdf_content =
     (case extract_pdf_content E pdf_path of Inl e \<Rightarrow> Inl e | Inr d \<Rightarrow> Inr (RPdf d))"
| "call_tool E target pdf_path csv_path fs Tool_get_expected_info =
     (case get_expected_info E csv_path of Inl e \<Rightarrow> Inl e | Inr d \<Rightarrow> Inr (RInfo d))"
| "call_tool E target pdf_path csv_path fs Tool_run_test =
     (case run_test E target pdf_path csv_path fs of Inl e \<Rightarrow> Inl e | Inr r \<Rightarrow> Inr (RStr r))"
| "call_tool E target pdf_path csv_path fs Tool_write_parser_code =
     Inl (Exn TypeError
       (''tool_write_parser_code() missing 1 required positional argument: '' @
        [CHR 0x27] @ ''attempts'' @ [CHR 0x27]))"

subsection \<open>Dispatching one tool invocation\<close>

text \<open>\<^verbatim>\<open>not hasattr(tool_call, 'id') or not tool_call.id\<close>\<close>

definition missing_id :: "tool_call \<Rightarrow> bool" where
  "missing_id tc =
     (case tc_id tc of None \<Rightarrow> True | Some IdNone \<Rightarrow> True | Some (IdStr s) \<Rightarrow> s = [])"

text \<open>\<^verbatim>\<open>tool_call.id if hasattr(tool_call, 'id') else "unknown"\<close>\<close>

definition id_or_unknown :: "tool_call \<Rightarrow> id_value" where
  "id_or_unknown tc = (case tc_id tc of None \<Rightarrow> IdStr ''unknown'' | Some v \<Rightarrow> v)"

text \<open>\<^verbatim>\<open>str(result)\<close>\<close>

definition str_result :: "('df, 'mod) env \<Rightarrow> tool_result \<Rightarrow> string" where
  "str_result E r = (case r of RStr s \<Rightarrow> s | _ \<Rightarrow> str_dict E r)"

text \<open>The \<^verbatim>\<open>except Exception\<close> branch of the dispatch; any other exception leaves
  the loop, and \<open>Some\<close> of it is returned with the state reached.\<close>

definition tool_failed ::
  "tool_call \<Rightarrow> exn \<Rightarrow> state \<Rightarrow> exn option \<times> state" where
  "tool_failed tc e st =
     (if is_Exception e then
        (None,
         print (''Tool '' @ tc_name tc @ '' failed: '' @ str_exn e)
           (append_message
              \<lparr>msg_role = ''tool'', msg_content = ''Tool error: '' @ str_exn e,
               msg_tool_calls = None, msg_tool_call_id = Some (id_or_unknown tc),
               msg_name = None\<rparr> st))
      else (Some e, st))"

text \<open>The rest of the \<^verbatim>\<open>try\<close> block once the executor has returned \<open>result\<close>.\<close>

definition tool_executed ::
  "('df, 'mod) env \<Rightarrow> tool_call \<Rightarrow> tool_result \<Rightarrow> state \<Rightarrow> exn option \<times> state" where
  "tool_executed E tc result st =
     (case json_dumps E result of
        Inl e \<Rightarrow> tool_failed tc e st
      | Inr dumped \<Rightarrow>
          (None,
           print (''Tool '' @ tc_name tc @ '' executed: '' @ take 100 (str_result E result) @ ''...'')
             (append_message
                \<lparr>msg_role = ''tool'', msg_content = dumped, msg_tool_calls = None,
                 msg_tool_call_id = tc_id tc, msg_name = Some (tc_name tc)\<rparr> st)))"

text \<open>The body of \<^verbatim>\<open>for tool_call in message.tool_calls\<close>.\<close>

definition dispatch ::
  "('df, 'mod) env \<Rightarrow> string \<Rightarrow> string \<Rightarrow> string \<Rightarrow> tool_call \<Rightarrow> state \<Rightarrow> exn option \<times> state" where
  "dispatch E target pdf_path csv_path tc st =
     (let func_name = tc_name tc in
      case tool_map func_name of
        None \<Rightarrow>
          (None,
           append_message
             \<lparr>msg_role = ''tool'', msg_content = ''Unknown tool: '' @ func_name,
              msg_tool_calls = None, msg_tool_call_id = Some (id_or_unknown tc),
              msg_name = None\<rparr> st)
      | Some executor \<Rightarrow>
          if missing_id tc then
            (None,
             append_message
               \<lparr>msg_role = ''tool'',
                msg_content = ''Error: Tool call for '' @ func_name @ '' missing tool_call_id'',
                msg_tool_calls = None, msg_tool_call_id = None, msg_name = None\<rparr>
               (print (''Warning: Tool call for '' @ func_name @ '' missing tool_call_id'') st))
          else if func_name = ''write_parser_code'' then
            (case tool_write_parser_code E target tc (attempts st) (disk st) of
               (Inl e, fs') \<Rightarrow> tool_failed tc e (st\<lparr>disk := fs'\<rparr>)
             | (Inr (result, attempts'), fs') \<Rightarrow>
                 tool_executed E tc (RStr result) (st\<lparr>attempts := attempts', disk := fs'\<rparr>))
          else
            (case call_tool E target pdf_path csv_path (disk st) executor of
               Inl e \<Rightarrow> tool_failed tc e st
             | Inr result \<Rightarrow> tool_executed E tc result st))"

fun dispatch_all ::
  "('df, 'mod) env \<Rightarrow> string \<Rightarrow> string \<Rightarrow> string \<Rightarrow> tool_call list \<Rightarrow> state \<Rightarrow> exn option \<times> state" where
  "dispatch_all E target pdf_path csv_path [] st = (None, st)"
| "dispatch_all E target pdf_path csv_path (tc # tcs) st =
     (case dispatch E target pdf_path csv_path tc st of
        (Some e, st') \<Rightarrow> (Some e, st')
      | (None, st') \<Rightarrow> dispatch_all E target pdf_path csv_path tcs st')"

subsection \<open>The agent loop\<close>

text \<open>How one pass through the body of the \<^verbatim>\<open>while\<close> loop ends.\<close>

datatype step =
    Continue state
  | Return state
  | Raise exn state

definition passed_line :: string where
  "passed_line = [CHR 0xE2, CHR 0x9C, CHR 0x85] @ '' Parser successful!''"

definition failed_line :: string where
  "failed_line =
     [CHR 0xE2, CHR 0x9D, CHR 0x8C] @ '' Max attempts reached, but parser written for manual fix.''"

definition agent_round ::
  "('df, 'mod) env \<Rightarrow> string \<Rightarrow> string \<Rightarrow> string \<Rightarrow> nat \<Rightarrow> state \<Rightarrow> step" where
  "agent_round E target pdf_path csv_path iteration st =
     (case chat_create E iteration (messages st) of
        Inl e \<Rightarrow> Raise e st
      | Inr message \<Rightarrow>
          if resp_tool_calls message \<noteq> [] then
            (case dispatch_all E target pdf_path csv_path (resp_tool_calls message)
                    (append_message
                       \<lparr>msg_role = ''assistant'',
                        msg_content = (case resp_content message of None \<Rightarrow> [] | Some c \<Rightarrow> c),
                        msg_tool_calls = Some (resp_tool_calls message),
                        msg_tool_call_id = None, msg_name = None\<rparr> st) of
               (Some e, st') \<Rightarrow> Raise e st'
             | (None, st') \<Rightarrow> Continue st')
          else
            (let content = (case resp_content message of None \<Rightarrow> [] | Some c \<Rightarrow> c);
                 st1 = print (''Agent: '' @ content)
                         (append_message
                            \<lparr>msg_role = ''assistant'', msg_content = content,
                             msg_tool_calls = None, msg_tool_call_id = None,
                             msg_name = None\<rparr> st)
             in if str_in ''FINISH'' (upper content) then
                  (case run_test E target pdf_path csv_path (disk st1) of
                     Inl e \<Rightarrow> Raise e st1
                   | Inr final_result \<Rightarrow>
                       (let st2 = print (''Agent complete. Final test: '' @ final_result) st1
                        in if str_in ''TEST PASSED'' final_result
                           then Return (print passed_line st2)
                           else Return (print failed_line st2)))
                else Continue st1))"

definition max_iterations :: nat where
  "max_iterations = 30"

text \<open>How run_agent ends: it returns after a completion signal, it returns after the
  ceiling, or an exception leaves it.\<close>

datatype outcome =
    Finished
  | CeilingReached
  | Raised exn

function agent_loop ::
  "('df, 'mod) env \<Rightarrow> string \<Rightarrow> string \<Rightarrow> string \<Rightarrow> nat \<Rightarrow> state \<Rightarrow> outcome \<times> nat \<times> state" where
  "agent_loop E target pdf_path csv_path iteration st =
     (if iteration < max_iterations then
        (case agent_round E target pdf_path csv_path iteration st of
           Continue st' \<Rightarrow> agent_loop E target pdf_path csv_path (iteration + 1) st'
         | Return st' \<Rightarrow> (Finished, iteration, st')
         | Raise e st' \<Rightarrow> (Raised e, iteration, st'))
      else (CeilingReached, iteration, print ''Max iterations reached.'' st))"
  by pat_completeness auto
termination
  by (relation "measure (\<lambda>(E, target, pdf_path, csv_path, iteration, st). max_iterations - iteration)")
    auto

declare agent_loop.simps [simp del]

subsection \<open>run_agent\<close>

text \<open>The system instruction and the user request that open the transcript.\<close>

definition system_prompt :: "string \<Rightarrow> string" where
  "system_prompt target = join [CHR 0x0A]
     [''You are a coding agent for writing bank statement PDF parsers.'',
      '''',
      ''Target bank: '' @ target,
      '''',
      ''Goal: Generate '' @ target @ ''_parser.py with:'',
      ''- Imports: MUST include `import pandas as pd` and `import pdfplumber`'',
      ''- Function: def parse(pdf_path: str) -> pd.DataFrame'',
      ''- The DataFrame must match the CSV schema exactly (rows, columns, values, dtypes)'',
      '''',
      ''Use tools:'',
      ''1. Call get_pdf_content to inspect PDF (text/tables for '' @ target @
        ''-specific format, e.g., transaction tables).'',
      ''2. Call get_expected_info for schema (columns like '' @ [CHR 0x27] @ ''Date'' @
        [CHR 0x27] @ '', '' @ [CHR 0x27] @ ''Description'' @ [CHR 0x27] @
        '', etc.; match exactly incl. dtypes).'',
      ''3. Plan: Analyze PDF structure (e.g., extract table from pages, parse dates/debits). Handle '' @
        target @ '' quirks (e.g., multi-line descriptions).'',
      ''4. Generate FULL code string, starting with `import pandas as pd'',
      ''import pdfplumber'',
      '''',
      ''def parse(pdf_path: str) -> pd.DataFrame:'',
      ''    ...`. Ensure robust (error handling, all pages processed).'',
      ''5. Call write_parser_code with the complete code string.'',
      ''6. Call run_test. If '' @ [CHR 0x27] @ ''TEST PASSED'' @ [CHR 0x27] @ '', think '' @
        [CHR 0x22] @ ''Success!'' @ [CHR 0x22] @ '' and FINISH.'',
      ''7. If test fails, analyze error (e.g., wrong columns, parsing bug), fix code, and rewrite (max 3 attempts). On 3rd fail, FINISH anyway.'',
      '''',
      ''Output only tool calls or final thought + '' @ [CHR 0x27] @ ''FINISH'' @ [CHR 0x27] @
        ''. Keep code clean, typed, documented.'']"

definition initial_messages :: "string \<Rightarrow> message list" where
  "initial_messages target =
     [\<lparr>msg_role = ''system'', msg_content = system_prompt target, msg_tool_calls = None,
       msg_tool_call_id = None, msg_name = None\<rparr>,
      \<lparr>msg_role = ''user'',
       msg_content = ''Begin: Write parser for '' @ target @ '' bank statements.'',
       msg_tool_calls = None, msg_tool_call_id = None, msg_name = None\<rparr>]"

definition pdf_path_of :: "string \<Rightarrow> string" where
  "pdf_path_of target = ''data/'' @ target @ ''/'' @ target @ ''_sample.pdf''"

definition csv_path_of :: "string \<Rightarrow> string" where
  "csv_path_of target = ''data/'' @ target @ ''/'' @ target @ ''_sample.csv''"

definition initial_state :: "string \<Rightarrow> files \<Rightarrow> state" where
  "initial_state target fs =
     \<lparr>messages = initial_messages target, attempts = 0, disk = fs,
      stdout = [''Starting agent for '' @ target @ ''...'']\<rparr>"

text \<open>
  run_agent on the files \<open>fs\<close>. The two checks before the loop raise ValueError and
  leave the files and the output as they were.
\<close>

definition run_agent ::
  "('df, 'mod) env \<Rightarrow> string \<Rightarrow> files \<Rightarrow> outcome \<times> nat \<times> state" where
  "run_agent E target fs =
     (let unstarted = \<lparr>messages = [], attempts = 0, disk = fs, stdout = []\<rparr> in
      if getenv_api_key E = None \<or> getenv_api_key E = Some [] then
        (Raised (Exn ValueError ''GROQ_API_KEY not found in .env file.''), 0, unstarted)
      else if fs (pdf_path_of target) = None \<or> fs (csv_path_of target) = None then
        (Raised (Exn ValueError
           (''Sample files not found for '' @ target @ ''. Ensure data/'' @ target @ ''/'' @
            target @ ''_sample.pdf and .csv exist.'')), 0, unstarted)
      else agent_loop E target (pdf_path_of target) (csv_path_of target) 0
             (initial_state target fs))"

section \<open>The specification's wording\<close>

text \<open>
  The PDF Content Reader as the specification words it: the per-page texts, a page
  without text counting as the empty string, joined by newlines; and every table of
  every page, in page order, in one flat list.
\<close>

definition spec_page_text :: "page \<Rightarrow> string" where
  "spec_page_text p = (case extract_text p of None \<Rightarrow> [] | Some t \<Rightarrow> t)"

definition spec_page_tables :: "page \<Rightarrow> table list" where
  "spec_page_tables p = (case extract_tables p of None \<Rightarrow> [] | Some ts \<Rightarrow> ts)"

definition spec_pdf_content :: "page list \<Rightarrow> pdf_content" where
  "spec_pdf_content pages =
     \<lparr>pdf_text = join [CHR 0x0A] (map spec_page_text pages),
      pdf_tables = concat (map spec_page_tables pages)\<rparr>"

text \<open>The names of the tool catalog.\<close>

definition catalog :: "string set" where
  "catalog = {''get_pdf_content'', ''get_expected_info'', ''write_parser_code'', ''run_test''}"

text \<open>The number of answers of the model in a transcript.\<close>

definition assistant_count :: "message list \<Rightarrow> nat" where
  "assistant_count ms = length (filter (\<lambda>m. msg_role m = ''assistant'') ms)"

section \<open>A concrete environment\<close>

text \<open>
  An environment to run the definitions on: a table is its column names and its rows,
  two tables are equal when they are the same, a module is its source text. The decoder
  knows five argument strings; the model answers with plain text. Files are written in
  an encoding that has ASCII only, so that a text with another character is refused.
\<close>

type_synonym demo_table = "string list \<times> string list list"

definition demo_loads :: "string \<Rightarrow> exn + json" where
  "demo_loads s =
     (if s = ''{'' @ [CHR 0x22] @ ''code'' @ [CHR 0x22] @ '': 5}''
      then Inr (JObj [(''code'', JInt 5)])
      else if s = ''{'' @ [CHR 0x22] @ ''code'' @ [CHR 0x22] @ '': '' @ [CHR 0x22] @ ''pass'' @
                  [CHR 0x22] @ ''}''
      then Inr (JObj [(''code'', JStr ''pass'')])
      else if s = ''{'' @ [CHR 0x22] @ ''code'' @ [CHR 0x22] @ '': '' @ [CHR 0x22] @
                  ''import pandas as pd'' @ [CHR 0x22] @ ''}''
      then Inr (JObj [(''code'', JStr ''import pandas as pd'')])
      else if s = ''{'' @ [CHR 0x22] @ ''code'' @ [CHR 0x22] @ '': '' @ [CHR 0x22] @
                  ''# '' @ [CHR 0xE2, CHR 0x9C, CHR 0x85] @ '' parser'' @ [CHR 0x22] @ ''}''
      then Inr (JObj [(''code'', JStr (''# '' @ [CHR 0xE2, CHR 0x9C, CHR 0x85] @ '' parser''))])
      else if s = ''[]'' then Inr (JArr [])
      else Inl (Exn JSONDecodeError ''Expecting value: line 1 column 1 (char 0)''))"

definition demo_file_write :: "string \<Rightarrow> exn option" where
  "demo_file_write s =
     (if \<forall>c \<in> set s. (of_char c :: nat) < 128 then None
      else Some (Exn ValueError
        ([CHR 0x27] @ ''ascii'' @ [CHR 0x27] @ '' codec can'' @ [CHR 0x27] @
         ''t encode character: ordinal not in range(128)'')))"

definition demo_dumps :: "tool_result \<Rightarrow> exn + string" where
  "demo_dumps r =
     (case r of RStr s \<Rightarrow> Inr ([CHR 0x22] @ s @ [CHR 0x22]) | _ \<Rightarrow> Inr ''{}'')"

definition demo_reference :: demo_table where
  "demo_reference = ([''Date'', ''Balance''], [[''01-01-2024'', ''10''], [''02-01-2024'', ''20'']])"

definition demo_candidate :: demo_table where
  "demo_candidate = ([''Date'', ''Balance''], [[''01-01-2024'', ''10'']])"

definition demo_env :: "(demo_table, string) env" where
  "demo_env =
     \<lparr>getenv_api_key = Some ''key'',
      chat_create = (\<lambda>i ms. Inr \<lparr>resp_content = Some ''thinking'', resp_tool_calls = []\<rparr>),
      json_loads = demo_loads,
      json_dumps = demo_dumps,
      makedirs_open = (\<lambda>path. None),
      file_write = demo_file_write,
      str_dict = (\<lambda>r. ''{}''),
      pdf_open = (\<lambda>p. Inr [\<lparr>extract_text = Some ''page one'', extract_tables = Some [[[Some ''a'']]]\<rparr>,
                           \<lparr>extract_text = None, extract_tables = None\<rparr>,
                           \<lparr>extract_text = Some ''page three'',
                            extract_tables = Some [[[Some ''b'']], [[None]]]\<rparr>]),
      read_csv = (\<lambda>p. Inr demo_reference),
      df_columns = fst,
      df_shape = (\<lambda>df. (length (snd df), length (fst df))),
      df_dtypes = (\<lambda>df. map (\<lambda>c. (c, ''object'')) (fst df)),
      df_head_records = (\<lambda>df. map (\<lambda>r. zip (fst df) (map JStr r)) (take 3 (snd df))),
      df_head_str = (\<lambda>df. join [CHR 0x0A] (map (join '' '') (fst df # take 5 (snd df)))),
      df_equals = (\<lambda>a b. a = b),
      spec_from_file_location = (\<lambda>name path. SpecWithLoader),
      exec_module = (\<lambda>source. Inr source),
      call_parse = (\<lambda>module p. Inr (Table demo_candidate))\<rparr>"

text \<open>The same, with a generated module whose loading raises.\<close>

definition demo_env_raising :: "exn \<Rightarrow> (demo_table, string) env" where
  "demo_env_raising e = demo_env\<lparr>exec_module := (\<lambda>source. Inl e)\<rparr>"


text \<open>The same model, with a module that loads and whose \<^verbatim>\<open>parse\<close> ends as given.\<close>

definition demo_env_parsing ::
  "exn + demo_table parse_value \<Rightarrow> (demo_table, string) env" where
  "demo_env_parsing parsed =
     demo_env
       \<lparr>chat_create := (\<lambda>i ms. Inr \<lparr>resp_content = Some ''Done. finish'', resp_tool_calls = []\<rparr>),
        call_parse := (\<lambda>module p. parsed)\<rparr>"

definition demo_files :: files where
  "demo_files = [parser_path_of ''icici'' \<mapsto> ''def parse(pdf_path): return table'']"

definition demo_state :: state where
  "demo_state = \<lparr>messages = initial_messages ''icici'', attempts = 0, disk = demo_files, stdout = []\<rparr>"

text \<open>Tool invocations to run the dispatch on.\<close>

definition write_call :: "string \<Rightarrow> string \<Rightarrow> tool_call" where
  "write_call ident arguments =
     \<lparr>tc_id = Some (IdStr ident), tc_name = ''write_parser_code'', tc_arguments = arguments\<rparr>"

definition args_code_5 :: string where
  "args_code_5 = ''{'' @ [CHR 0x22] @ ''code'' @ [CHR 0x22] @ '': 5}''"

definition args_code_import :: string where
  "args_code_import =
     ''{'' @ [CHR 0x22] @ ''code'' @ [CHR 0x22] @ '': '' @ [CHR 0x22] @ ''import pandas as pd'' @
     [CHR 0x22] @ ''}''"

definition args_code_symbol :: string where
  "args_code_symbol =
     ''{'' @ [CHR 0x22] @ ''code'' @ [CHR 0x22] @ '': '' @ [CHR 0x22] @
     ''# '' @ [CHR 0xE2, CHR 0x9C, CHR 0x85] @ '' parser'' @ [CHR 0x22] @ ''}''"

definition args_code_pass :: string where
  "args_code_pass =
     ''{'' @ [CHR 0x22] @ ''code'' @ [CHR 0x22] @ '': '' @ [CHR 0x22] @ ''pass'' @ [CHR 0x22] @ ''}''"

definition import_error :: exn where
  "import_error = Exn ImportError (''No module named '' @ [CHR 0x27] @ ''pandsa'' @ [CHR 0x27])"

definition name_error :: exn where
  "name_error = Exn NameError (''name '' @ [CHR 0x27] @ ''pd'' @ [CHR 0x27] @ '' is not defined'')"

definition unknown_call :: "string \<Rightarrow> tool_call" where
  "unknown_call ident =
     \<lparr>tc_id = Some (IdStr ident), tc_name = ''delete_file'', tc_arguments = ''{}''\<rparr>"

definition test_call :: "string \<Rightarrow> tool_call" where
  "test_call ident =
     \<lparr>tc_id = Some (IdStr ident), tc_name = ''run_test'', tc_arguments = ''{}''\<rparr>"

text \<open>The state a pass through the loop body ends in.\<close>

fun state_of :: "step \<Rightarrow> state" where
  "state_of (Continue st) = st"
| "state_of (Return st) = st"
| "state_of (Raise e st) = st"

text \<open>The files of a run that passes the two checks before the loop.\<close>

definition demo_run_files :: files where
  "demo_run_files =
     [parser_path_of ''icici'' \<mapsto> ''def parse(pdf_path): return table'',
      pdf_path_of ''icici'' \<mapsto> ''%PDF-1.4'',
      csv_path_of ''icici'' \<mapsto> ''Date,Balance'']"

section \<open>Facts about strings\<close>

lemma starts_with_append: "starts_with n (n @ b)"
  by (induction n) auto

lemma str_in_append: "str_in n (a @ n @ b)"
proof (induction a)
  case Nil
  show ?case by (cases "n @ b") (use starts_with_append [of n b] in auto)
next
  case (Cons x a)
  then show ?case by simp
qed

lemma str_in_suffix: "str_in n (a @ n)"
  using str_in_append [of n a "[]"] by simp

section \<open>The PDF Content Reader\<close>

lemma collect_tables_acc: "collect_tables pages acc = acc @ concat (map spec_page_tables pages)"
  by (induction pages arbitrary: acc) (auto simp: spec_page_tables_def split: option.splits)

lemma text_or_empty_spec: "text_or_empty p = spec_page_text p"
  by (simp add: text_or_empty_def spec_page_text_def split: option.splits)

text \<open>
  C9. For a PDF that opens, extract_pdf_content returns the per-page texts joined by
  newlines, a page without text counting as the empty string, and all tables of all
  pages in page order in one flat list. The function takes no state and returns none: it
  has no effect besides its result.
\<close>

theorem extract_pdf_content_spec:
  "pdf_open E pdf_path = Inr pages \<Longrightarrow>
     extract_pdf_content E pdf_path = Inr (spec_pdf_content pages)"
  by (simp add: extract_pdf_content_def spec_pdf_content_def collect_tables_acc
      text_or_empty_spec cong: map_cong)

theorem extract_pdf_content_spec_witness:
  "pdf_open demo_env ''data/icici/icici_sample.pdf'' =
     Inr [\<lparr>extract_text = Some ''page one'', extract_tables = Some [[[Some ''a'']]]\<rparr>,
          \<lparr>extract_text = None, extract_tables = None\<rparr>,
          \<lparr>extract_text = Some ''page three'', extract_tables = Some [[[Some ''b'']], [[None]]]\<rparr>] \<and>
   extract_pdf_content demo_env ''data/icici/icici_sample.pdf'' =
     Inr \<lparr>pdf_text = ''page one'' @ [CHR 0x0A] @ [CHR 0x0A] @ ''page three'',
          pdf_tables = [[[Some ''a'']], [[Some ''b'']], [[None]]]\<rparr>"
proof -
  have h: "pdf_open demo_env ''data/icici/icici_sample.pdf'' =
     Inr [\<lparr>extract_text = Some ''page one'', extract_tables = Some [[[Some ''a'']]]\<rparr>,
          \<lparr>extract_text = None, extract_tables = None\<rparr>,
          \<lparr>extract_text = Some ''page three'', extract_tables = Some [[[Some ''b'']], [[None]]]\<rparr>]"
    by (simp add: demo_env_def)
  show ?thesis
    using h extract_pdf_content_spec [OF h]
    by (simp add: spec_pdf_content_def spec_page_text_def spec_page_tables_def)
qed

section \<open>The Parser Test Runner\<close>

text \<open>
  C3. When the generated module loads, its parse function returns a table and the
  reference table is read, run_test returns "TEST PASSED" exactly when the table
  library's \<^verbatim>\<open>equals\<close> finds the two tables identical; otherwise it returns a
  message that starts with "TEST FAILED" and contains the shape and the head of both
  tables.
\<close>

theorem run_test_verdict:
  assumes "fs (parser_path_of target) = Some source"
    and "spec_from_file_location E (target @ ''_parser'') (parser_path_of target) = SpecWithLoader"
    and "exec_module E source = Inr module"
    and "call_parse E module pdf_path = Inr (Table parsed_df)"
    and "read_csv E csv_path = Inr expected_df"
  shows "(run_test E target pdf_path csv_path fs = Inr ''TEST PASSED'' \<longleftrightarrow>
            df_equals E parsed_df expected_df) \<and>
         (\<not> df_equals E parsed_df expected_df \<longrightarrow>
            (\<exists>report. run_test E target pdf_path csv_path fs = Inr report \<and>
               starts_with ''TEST FAILED'' report \<and>
               str_in (str_shape (df_shape E parsed_df)) report \<and>
               str_in (str_shape (df_shape E expected_df)) report \<and>
               str_in (df_head_str E parsed_df) report \<and>
               str_in (df_head_str E expected_df) report))"
proof -
  let ?report = "''TEST FAILED: DataFrames do not match. Parsed shape: '' @
                      str_shape (df_shape E parsed_df) @ '', Expected shape: '' @
                      str_shape (df_shape E expected_df) @
                      ''. Sample diff: Parsed head:'' @ [CHR 0x0A] @
                      df_head_str E parsed_df @ [CHR 0x0A] @ ''Expected head:'' @
                      [CHR 0x0A] @ df_head_str E expected_df"
  have cmp: "compare_tables E module pdf_path csv_path =
      (if df_equals E parsed_df expected_df then Inr ''TEST PASSED'' else Inr ?report)"
    using assms(4,5) by (simp add: compare_tables_def)
  have rt: "run_test E target pdf_path csv_path fs =
      (if df_equals E parsed_df expected_df then Inr ''TEST PASSED'' else Inr ?report)"
    using assms(1,2,3) cmp by (simp add: run_test_def Let_def)
  have s1: "str_in (str_shape (df_shape E parsed_df)) ?report"
    using str_in_append [of "str_shape (df_shape E parsed_df)"
        "''TEST FAILED: DataFrames do not match. Parsed shape: ''"] by simp
  have s2: "str_in (str_shape (df_shape E expected_df)) ?report"
    using str_in_append [of "str_shape (df_shape E expected_df)"
        "''TEST FAILED: DataFrames do not match. Parsed shape: '' @
                      str_shape (df_shape E parsed_df) @ '', Expected shape: ''"] by simp
  have s3: "str_in (df_head_str E parsed_df) ?report"
    using str_in_append [of "df_head_str E parsed_df"
        "''TEST FAILED: DataFrames do not match. Parsed shape: '' @
                      str_shape (df_shape E parsed_df) @ '', Expected shape: '' @
                      str_shape (df_shape E expected_df) @
                      ''. Sample diff: Parsed head:'' @ [CHR 0x0A]"] by simp
  have s4: "str_in (df_head_str E expected_df) ?report"
    using str_in_suffix [of "df_head_str E expected_df"
        "''TEST FAILED: DataFrames do not match. Parsed shape: '' @
                      str_shape (df_shape E parsed_df) @ '', Expected shape: '' @
                      str_shape (df_shape E expected_df) @
                      ''. Sample diff: Parsed head:'' @ [CHR 0x0A] @
                      df_head_str E parsed_df @ [CHR 0x0A] @ ''Expected head:'' @
                      [CHR 0x0A]"] by simp
  have s0: "starts_with ''TEST FAILED'' ?report" by simp
  have ne: "?report \<noteq> ''TEST PASSED''" by simp
  show ?thesis
  proof (cases "df_equals E parsed_df expected_df")
    case True
    then show ?thesis using rt by simp
  next
    case False
    then have "run_test E target pdf_path csv_path fs = Inr ?report" using rt by simp
    then show ?thesis using False s0 s1 s2 s3 s4 ne by simp
  qed
qed

theorem run_test_verdict_witness:
  "demo_files (parser_path_of ''icici'') = Some ''def parse(pdf_path): return table'' \<and>
   spec_from_file_location demo_env (''icici'' @ ''_parser'') (parser_path_of ''icici'') = SpecWithLoader \<and>
   exec_module demo_env ''def parse(pdf_path): return table'' = Inr ''def parse(pdf_path): return table'' \<and>
   call_parse demo_env ''def parse(pdf_path): return table'' (pdf_path_of ''icici'') = Inr (Table demo_candidate) \<and>
   read_csv demo_env (csv_path_of ''icici'') = Inr demo_reference \<and>
   \<not> df_equals demo_env demo_candidate demo_reference \<and>
   run_test demo_env ''icici'' (pdf_path_of ''icici'') (csv_path_of ''icici'') demo_files \<noteq> Inr ''TEST PASSED'' \<and>
   (\<exists>report. run_test demo_env ''icici'' (pdf_path_of ''icici'') (csv_path_of ''icici'') demo_files = Inr report \<and>
      starts_with ''TEST FAILED'' report \<and> str_in ''(1, 2)'' report \<and> str_in ''(2, 2)'' report)"
proof -
  have h1: "demo_files (parser_path_of ''icici'') = Some ''def parse(pdf_path): return table''"
    by (simp add: demo_files_def)
  have h2: "spec_from_file_location demo_env (''icici'' @ ''_parser'') (parser_path_of ''icici'') = SpecWithLoader"
    by (simp add: demo_env_def)
  have h3: "exec_module demo_env ''def parse(pdf_path): return table'' = Inr ''def parse(pdf_path): return table''"
    by (simp add: demo_env_def)
  have h4: "call_parse demo_env ''def parse(pdf_path): return table'' (pdf_path_of ''icici'') = Inr (Table demo_candidate)"
    by (simp add: demo_env_def)
  have h5: "read_csv demo_env (csv_path_of ''icici'') = Inr demo_reference"
    by (simp add: demo_env_def)
  have ne: "\<not> df_equals demo_env demo_candidate demo_reference"
    by (simp add: demo_env_def demo_candidate_def demo_reference_def)
  have sh1: "str_shape (df_shape demo_env demo_candidate) = ''(1, 2)''"
    by (simp add: demo_env_def demo_candidate_def digit_char_def)
  have sh2: "str_shape (df_shape demo_env demo_reference) = ''(2, 2)''"
    by (simp add: demo_env_def demo_reference_def digit_char_def)
  show ?thesis
    using run_test_verdict [where fs = demo_files and target = "''icici''" and E = demo_env,
        OF h1 h2 h3 h4 h5] h1 h2 h3 h4 h5 ne sh1 sh2
    by auto
qed

section \<open>The tool catalog\<close>

lemma tool_map_catalog: "name \<in> catalog \<Longrightarrow> \<exists>executor. tool_map name = Some executor"
  by (auto simp: catalog_def tool_map_def)

lemma tool_map_unknown: "name \<notin> catalog \<Longrightarrow> tool_map name = None"
  by (simp add: catalog_def tool_map_def)

section \<open>Errors while the generated module loads\<close>

text \<open>
  C4, as amended. When the file is there and its loading raises, run_test returns the
  message "TEST FAILED: Parser module has invalid imports: ..." for a NameError, and lets
  an exception of any other class pass to its caller.
\<close>

theorem run_test_load_error:
  assumes "fs (parser_path_of target) = Some source"
    and "spec_from_file_location E (target @ ''_parser'') (parser_path_of target) = SpecWithLoader"
    and "exec_module E source = Inl e"
  shows "run_test E target pdf_path csv_path fs =
           (if exn_cls e = NameError
            then Inr (''TEST FAILED: Parser module has invalid imports: '' @ str_exn e)
            else Inl e)"
  using assms by (simp add: run_test_def Let_def)

text \<open>A module that uses \<^verbatim>\<open>pd\<close> without importing it.\<close>

theorem run_test_load_error_witness:
  "demo_files (parser_path_of ''icici'') = Some ''def parse(pdf_path): return table'' \<and>
   spec_from_file_location (demo_env_raising name_error) (''icici'' @ ''_parser'')
     (parser_path_of ''icici'') = SpecWithLoader \<and>
   exec_module (demo_env_raising name_error) ''def parse(pdf_path): return table'' = Inl name_error \<and>
   run_test (demo_env_raising name_error) ''icici'' (pdf_path_of ''icici'') (csv_path_of ''icici'')
     demo_files =
     Inr (''TEST FAILED: Parser module has invalid imports: name '' @ [CHR 0x27] @ ''pd'' @
          [CHR 0x27] @ '' is not defined'')"
proof -
  have h1: "demo_files (parser_path_of ''icici'') = Some ''def parse(pdf_path): return table''"
    by (simp add: demo_files_def)
  have h2: "spec_from_file_location (demo_env_raising name_error) (''icici'' @ ''_parser'')
     (parser_path_of ''icici'') = SpecWithLoader"
    by (simp add: demo_env_raising_def demo_env_def)
  have h3: "exec_module (demo_env_raising name_error) ''def parse(pdf_path): return table'' =
      Inl name_error"
    by (simp add: demo_env_raising_def)
  show ?thesis
    using run_test_load_error [where fs = demo_files and target = "''icici''"
        and E = "demo_env_raising name_error", OF h1 h2 h3] h1 h2 h3
    by (simp add: name_error_def)
qed

text \<open>
  C4 as stated fails: a module that imports a package that does not exist raises
  ImportError while loading, and the error leaves run_test.
\<close>

theorem load_error_escapes_run_test:
  "run_test (demo_env_raising import_error) ''icici'' (pdf_path_of ''icici'') (csv_path_of ''icici'')
     demo_files = Inl import_error"
  by (simp add: run_test_def demo_files_def demo_env_raising_def demo_env_def import_error_def)

section \<open>Dispatching tool invocations\<close>

text \<open>
  C6, as amended. An invocation of a tool of the catalog whose correlation token is
  missing or empty never reaches the executor: the dispatch prints a warning and appends
  the error result "Error: Tool call for ... missing tool_call_id", which carries no
  token; the counter and the files stay as they were.
\<close>

theorem missing_token_skips_executor:
  assumes "tc_name tc \<in> catalog" and "missing_id tc"
  shows "dispatch E target pdf_path csv_path tc st =
           (None,
            st\<lparr>messages := messages st @
                  [\<lparr>msg_role = ''tool'',
                    msg_content = ''Error: Tool call for '' @ tc_name tc @ '' missing tool_call_id'',
                    msg_tool_calls = None, msg_tool_call_id = None, msg_name = None\<rparr>],
               stdout := stdout st @
                  [''Warning: Tool call for '' @ tc_name tc @ '' missing tool_call_id'']\<rparr>)"
proof -
  from assms(1) obtain executor where "tool_map (tc_name tc) = Some executor"
    using tool_map_catalog by blast
  with assms(2) show ?thesis
    by (simp add: dispatch_def Let_def append_message_def print_def)
qed

theorem missing_token_skips_executor_witness:
  "tc_name (write_call [] args_code_pass) \<in> catalog \<and> missing_id (write_call [] args_code_pass) \<and>
   dispatch demo_env ''icici'' (pdf_path_of ''icici'') (csv_path_of ''icici'')
       (write_call [] args_code_pass) demo_state =
     (None,
      demo_state\<lparr>messages := initial_messages ''icici'' @
            [\<lparr>msg_role = ''tool'',
              msg_content = ''Error: Tool call for write_parser_code missing tool_call_id'',
              msg_tool_calls = None, msg_tool_call_id = None, msg_name = None\<rparr>],
         stdout := [''Warning: Tool call for write_parser_code missing tool_call_id'']\<rparr>)"
proof -
  have h1: "tc_name (write_call [] args_code_pass) \<in> catalog"
    by (simp add: write_call_def catalog_def)
  have h2: "missing_id (write_call [] args_code_pass)"
    by (simp add: write_call_def missing_id_def)
  show ?thesis
    using missing_token_skips_executor [OF h1 h2, of demo_env "''icici''" "pdf_path_of ''icici''"
        "csv_path_of ''icici''" demo_state] h1 h2
    by (simp add: write_call_def demo_state_def)
qed

text \<open>
  C6 as stated fails: the name is looked up before the token, so an invocation with an
  empty token and a name outside the catalog gets the unknown-tool result, which says
  nothing about the token.
\<close>

theorem missing_token_unknown_tool:
  "dispatch demo_env ''icici'' (pdf_path_of ''icici'') (csv_path_of ''icici'')
       (unknown_call []) demo_state =
     (None,
      demo_state\<lparr>messages := initial_messages ''icici'' @
            [\<lparr>msg_role = ''tool'', msg_content = ''Unknown tool: delete_file'',
              msg_tool_calls = None, msg_tool_call_id = Some (IdStr []), msg_name = None\<rparr>]\<rparr>)"
  by (simp add: dispatch_def unknown_call_def tool_map_def append_message_def id_or_unknown_def
      demo_state_def)

text \<open>
  C8. For an invocation whose name is not in the catalog the dispatch appends the result
  "Unknown tool: ..." and raises nothing, and the loop over the invocations goes on
  with the next one.
\<close>

theorem unknown_tool_result:
  assumes "tc_name tc \<notin> catalog"
  shows "dispatch E target pdf_path csv_path tc st =
           (None,
            st\<lparr>messages := messages st @
                  [\<lparr>msg_role = ''tool'', msg_content = ''Unknown tool: '' @ tc_name tc,
                    msg_tool_calls = None, msg_tool_call_id = Some (id_or_unknown tc),
                    msg_name = None\<rparr>]\<rparr>) \<and>
         dispatch_all E target pdf_path csv_path (tc # rest) st =
           dispatch_all E target pdf_path csv_path rest
             (st\<lparr>messages := messages st @
                  [\<lparr>msg_role = ''tool'', msg_content = ''Unknown tool: '' @ tc_name tc,
                    msg_tool_calls = None, msg_tool_call_id = Some (id_or_unknown tc),
                    msg_name = None\<rparr>]\<rparr>)"
proof -
  from assms have "tool_map (tc_name tc) = None"
    by (rule tool_map_unknown)
  then have "dispatch E target pdf_path csv_path tc st =
           (None,
            st\<lparr>messages := messages st @
                  [\<lparr>msg_role = ''tool'', msg_content = ''Unknown tool: '' @ tc_name tc,
                    msg_tool_calls = None, msg_tool_call_id = Some (id_or_unknown tc),
                    msg_name = None\<rparr>]\<rparr>)"
    by (simp add: dispatch_def Let_def append_message_def)
  then show ?thesis by simp
qed

theorem unknown_tool_result_witness:
  "tc_name (unknown_call ''call_9'') \<notin> catalog \<and>
   dispatch demo_env ''icici'' (pdf_path_of ''icici'') (csv_path_of ''icici'')
       (unknown_call ''call_9'') demo_state =
     (None,
      demo_state\<lparr>messages := initial_messages ''icici'' @
            [\<lparr>msg_role = ''tool'', msg_content = ''Unknown tool: delete_file'',
              msg_tool_calls = None, msg_tool_call_id = Some (IdStr ''call_9''),
              msg_name = None\<rparr>]\<rparr>) \<and>
   dispatch_all demo_env ''icici'' (pdf_path_of ''icici'') (csv_path_of ''icici'')
       [unknown_call ''call_9''] demo_state =
     (None,
      demo_state\<lparr>messages := initial_messages ''icici'' @
            [\<lparr>msg_role = ''tool'', msg_content = ''Unknown tool: delete_file'',
              msg_tool_calls = None, msg_tool_call_id = Some (IdStr ''call_9''),
              msg_name = None\<rparr>]\<rparr>)"
proof -
  have h: "tc_name (unknown_call ''call_9'') \<notin> catalog"
    by (simp add: unknown_call_def catalog_def)
  show ?thesis
    using unknown_tool_result [OF h, of demo_env "''icici''" "pdf_path_of ''icici''"
        "csv_path_of ''icici''" demo_state "[]"] h
    by (simp add: unknown_call_def demo_state_def id_or_unknown_def)
qed

section \<open>The transcript along a run\<close>

lemma dispatch_messages:
  assumes "dispatch E target pdf_path csv_path tc st = (esc, st')"
  shows "(esc = None \<and>
          (\<exists>m. messages st' = messages st @ [m] \<and> msg_role m = ''tool'' \<and>
               (\<not> missing_id tc \<longrightarrow> msg_tool_call_id m = tc_id tc))) \<or>
         (esc \<noteq> None \<and> messages st' = messages st)"
  using assms
  by (auto simp: dispatch_def Let_def tool_executed_def tool_failed_def append_message_def
      print_def id_or_unknown_def missing_id_def
      split: option.splits sum.splits prod.splits if_splits id_value.splits)

lemma dispatch_prefix:
  "dispatch E target pdf_path csv_path tc st = (esc, st') \<Longrightarrow> prefix (messages st) (messages st')"
  using dispatch_messages [of E target pdf_path csv_path tc st esc st'] by auto

lemma dispatch_assistant_count:
  "dispatch E target pdf_path csv_path tc st = (esc, st') \<Longrightarrow>
     assistant_count (messages st') = assistant_count (messages st)"
  using dispatch_messages [of E target pdf_path csv_path tc st esc st']
  by (auto simp: assistant_count_def)

lemma dispatch_all_prefix:
  "dispatch_all E target pdf_path csv_path tcs st = (esc, st') \<Longrightarrow>
     prefix (messages st) (messages st')"
proof (induction tcs arbitrary: st)
  case Nil
  then show ?case by simp
next
  case (Cons tc tcs)
  obtain r st1 where d: "dispatch E target pdf_path csv_path tc st = (r, st1)"
    by (cases "dispatch E target pdf_path csv_path tc st")
  have p1: "prefix (messages st) (messages st1)" using d by (rule dispatch_prefix)
  show ?case
  proof (cases r)
    case None
    with Cons.prems d have "dispatch_all E target pdf_path csv_path tcs st1 = (esc, st')" by simp
    then have "prefix (messages st1) (messages st')" by (rule Cons.IH)
    with p1 show ?thesis by (rule prefix_order.trans)
  next
    case (Some e)
    with Cons.prems d have "st' = st1" by simp
    with p1 show ?thesis by simp
  qed
qed

lemma dispatch_all_assistant_count:
  "dispatch_all E target pdf_path csv_path tcs st = (esc, st') \<Longrightarrow>
     assistant_count (messages st') = assistant_count (messages st)"
proof (induction tcs arbitrary: st)
  case Nil
  then show ?case by simp
next
  case (Cons tc tcs)
  obtain r st1 where d: "dispatch E target pdf_path csv_path tc st = (r, st1)"
    by (cases "dispatch E target pdf_path csv_path tc st")
  have c1: "assistant_count (messages st1) = assistant_count (messages st)"
    using d by (rule dispatch_assistant_count)
  show ?case
  proof (cases r)
    case None
    with Cons.prems d have "dispatch_all E target pdf_path csv_path tcs st1 = (esc, st')" by simp
    then have "assistant_count (messages st') = assistant_count (messages st1)" by (rule Cons.IH)
    with c1 show ?thesis by simp
  next
    case (Some e)
    with Cons.prems d have "st' = st1" by simp
    with c1 show ?thesis by simp
  qed
qed

lemma agent_round_prefix:
  "prefix (messages st) (messages (state_of (agent_round E target pdf_path csv_path iteration st)))"
proof (cases "chat_create E iteration (messages st)")
  case (Inl e)
  then show ?thesis by (simp add: agent_round_def)
next
  case (Inr message)
  show ?thesis
  proof (cases "resp_tool_calls message = []")
    case True
    with Inr show ?thesis
      by (auto simp: agent_round_def Let_def append_message_def print_def split: sum.splits)
  next
    case False
    let ?st1 = "append_message
                       \<lparr>msg_role = ''assistant'',
                        msg_content = (case resp_content message of None \<Rightarrow> [] | Some c \<Rightarrow> c),
                        msg_tool_calls = Some (resp_tool_calls message),
                        msg_tool_call_id = None, msg_name = None\<rparr> st"
    obtain esc st2 where d:
      "dispatch_all E target pdf_path csv_path (resp_tool_calls message) ?st1 = (esc, st2)"
      by (cases "dispatch_all E target pdf_path csv_path (resp_tool_calls message) ?st1")
    have "prefix (messages ?st1) (messages st2)" using d by (rule dispatch_all_prefix)
    moreover have "prefix (messages st) (messages ?st1)" by (simp add: append_message_def)
    ultimately have p: "prefix (messages st) (messages st2)" by (rule prefix_order.trans[rotated])
    have "state_of (agent_round E target pdf_path csv_path iteration st) = st2"
      using Inr False d by (simp add: agent_round_def split: option.splits)
    with p show ?thesis by simp
  qed
qed

lemma agent_round_assistant_count:
  "assistant_count (messages (state_of (agent_round E target pdf_path csv_path iteration st)))
     \<le> assistant_count (messages st) + 1"
proof (cases "chat_create E iteration (messages st)")
  case (Inl e)
  then show ?thesis by (simp add: agent_round_def)
next
  case (Inr message)
  show ?thesis
  proof (cases "resp_tool_calls message = []")
    case True
    with Inr show ?thesis
      by (auto simp: agent_round_def Let_def append_message_def print_def assistant_count_def
          split: sum.splits)
  next
    case False
    let ?st1 = "append_message
                       \<lparr>msg_role = ''assistant'',
                        msg_content = (case resp_content message of None \<Rightarrow> [] | Some c \<Rightarrow> c),
                        msg_tool_calls = Some (resp_tool_calls message),
                        msg_tool_call_id = None, msg_name = None\<rparr> st"
    obtain esc st2 where d:
      "dispatch_all E target pdf_path csv_path (resp_tool_calls message) ?st1 = (esc, st2)"
      by (cases "dispatch_all E target pdf_path csv_path (resp_tool_calls message) ?st1")
    have "assistant_count (messages st2) = assistant_count (messages ?st1)"
      using d by (rule dispatch_all_assistant_count)
    moreover have "assistant_count (messages ?st1) = assistant_count (messages st) + 1"
      by (simp add: append_message_def assistant_count_def)
    ultimately have p: "assistant_count (messages st2) = assistant_count (messages st) + 1" by simp
    have "state_of (agent_round E target pdf_path csv_path iteration st) = st2"
      using Inr False d by (simp add: agent_round_def split: option.splits)
    with p show ?thesis by simp
  qed
qed

lemma agent_loop_prefix:
  "prefix (messages st) (messages (snd (snd (agent_loop E target pdf_path csv_path iteration st))))"
proof (induction E target pdf_path csv_path iteration st rule: agent_loop.induct)
  case (1 E target pdf_path csv_path iteration st)
  show ?case
  proof (cases "iteration < max_iterations")
    case False
    then show ?thesis by (simp add: agent_loop.simps [of _ _ _ _ iteration] print_def)
  next
    case True
    have rp: "prefix (messages st)
        (messages (state_of (agent_round E target pdf_path csv_path iteration st)))"
      by (rule agent_round_prefix)
    show ?thesis
    proof (cases "agent_round E target pdf_path csv_path iteration st")
      case (Continue st1)
      with True have "prefix (messages st1)
          (messages (snd (snd (agent_loop E target pdf_path csv_path (iteration + 1) st1))))"
        using "1.IH" by simp
      moreover from rp Continue have "prefix (messages st) (messages st1)" by simp
      ultimately have "prefix (messages st)
          (messages (snd (snd (agent_loop E target pdf_path csv_path (iteration + 1) st1))))"
        by (rule prefix_order.trans[rotated])
      with True Continue show ?thesis
        by (simp add: agent_loop.simps [of _ _ _ _ iteration])
    next
      case (Return st1)
      with True rp show ?thesis by (simp add: agent_loop.simps [of _ _ _ _ iteration])
    next
      case (Raise e st1)
      with True rp show ?thesis by (simp add: agent_loop.simps [of _ _ _ _ iteration])
    qed
  qed
qed

text \<open>
  C5, as amended. The result message appended for an invocation that carries a non-empty
  correlation token carries that token; an invocation that lets an exception leave the
  loop appends nothing. The transcript only grows: the transcript before a pass through
  the loop body, and before the whole loop, is a prefix of the transcript after it.
\<close>

theorem tool_results_and_append_only:
  "(\<forall>esc st'. dispatch E target pdf_path csv_path tc st = (esc, st') \<longrightarrow>
      (esc = None \<and>
         (\<exists>m. messages st' = messages st @ [m] \<and> msg_role m = ''tool'' \<and>
              (\<not> missing_id tc \<longrightarrow> msg_tool_call_id m = tc_id tc))) \<or>
      (esc \<noteq> None \<and> messages st' = messages st)) \<and>
   prefix (messages st)
     (messages (state_of (agent_round E target pdf_path csv_path iteration st))) \<and>
   prefix (messages st)
     (messages (snd (snd (agent_loop E target pdf_path csv_path iteration st))))"
  using dispatch_messages [of E target pdf_path csv_path tc st]
    agent_round_prefix [of st E target pdf_path csv_path iteration]
    agent_loop_prefix [of st E target pdf_path csv_path iteration]
  by blast

text \<open>A run_test invocation with the token \<^verbatim>\<open>call_1\<close>.\<close>

lemma demo_dispatch_test_call:
  "dispatch (demo_env_raising name_error) ''icici'' (pdf_path_of ''icici'') (csv_path_of ''icici'')
     (test_call ''call_1'') demo_state =
   (None,
    demo_state\<lparr>messages := initial_messages ''icici'' @
        [\<lparr>msg_role = ''tool'',
          msg_content = [CHR 0x22] @ ''TEST FAILED: Parser module has invalid imports: name '' @
            [CHR 0x27] @ ''pd'' @ [CHR 0x27] @ '' is not defined'' @ [CHR 0x22],
          msg_tool_calls = None, msg_tool_call_id = Some (IdStr ''call_1''),
          msg_name = Some ''run_test''\<rparr>],
      stdout := [''Tool run_test executed: TEST FAILED: Parser module has invalid imports: name '' @
            [CHR 0x27] @ ''pd'' @ [CHR 0x27] @ '' is not defined...'']\<rparr>)"
  by (simp add: dispatch_def test_call_def tool_map_def missing_id_def run_test_def
      demo_env_raising_def demo_env_def demo_state_def demo_files_def name_error_def
      tool_executed_def demo_dumps_def str_result_def append_message_def print_def)

theorem tool_results_and_append_only_witness:
  "\<not> missing_id (test_call ''call_1'') \<and>
   fst (dispatch (demo_env_raising name_error) ''icici'' (pdf_path_of ''icici'')
          (csv_path_of ''icici'') (test_call ''call_1'') demo_state) = None \<and>
   (\<exists>m. messages (snd (dispatch (demo_env_raising name_error) ''icici'' (pdf_path_of ''icici'')
            (csv_path_of ''icici'') (test_call ''call_1'') demo_state)) =
          messages demo_state @ [m] \<and>
        msg_role m = ''tool'' \<and> msg_tool_call_id m = Some (IdStr ''call_1'')) \<and>
   prefix (messages demo_state)
     (messages (snd (snd (agent_loop (demo_env_raising name_error) ''icici'' (pdf_path_of ''icici'')
        (csv_path_of ''icici'') 0 demo_state))))"
proof -
  have h1: "\<not> missing_id (test_call ''call_1'')"
    by (simp add: test_call_def missing_id_def)
  have h2: "fst (dispatch (demo_env_raising name_error) ''icici'' (pdf_path_of ''icici'')
          (csv_path_of ''icici'') (test_call ''call_1'') demo_state) = None"
    by (simp add: demo_dispatch_test_call)
  have id: "tc_id (test_call ''call_1'') = Some (IdStr ''call_1'')"
    by (simp add: test_call_def)
  show ?thesis
    using tool_results_and_append_only [of "demo_env_raising name_error" "''icici''"
        "pdf_path_of ''icici''" "csv_path_of ''icici''" "test_call ''call_1''" demo_state 0]
      h1 h2 id
    by (metis prod.collapse)
qed

text \<open>
  C5 as stated fails: the result appended for an invocation of a catalog tool with an
  empty token has no \<^verbatim>\<open>tool_call_id\<close> at all.
\<close>

theorem tool_result_without_token:
  "dispatch demo_env ''icici'' (pdf_path_of ''icici'') (csv_path_of ''icici'')
       (test_call []) demo_state =
     (None,
      demo_state\<lparr>messages := initial_messages ''icici'' @
            [\<lparr>msg_role = ''tool'',
              msg_content = ''Error: Tool call for run_test missing tool_call_id'',
              msg_tool_calls = None, msg_tool_call_id = None, msg_name = None\<rparr>],
         stdout := [''Warning: Tool call for run_test missing tool_call_id'']\<rparr>)"
  by (simp add: dispatch_def test_call_def tool_map_def missing_id_def append_message_def
      print_def demo_state_def)

section \<open>The completion signal\<close>

text \<open>
  run_test says "TEST PASSED" exactly when the module loads, \<^verbatim>\<open>parse\<close> returns a table,
  the reference is read and the two tables are equal: every other result is a different
  text.
\<close>

lemma compare_tables_passed:
  "compare_tables E module pdf_path csv_path = Inr ''TEST PASSED'' \<longleftrightarrow>
     (\<exists>parsed_df expected_df.
        call_parse E module pdf_path = Inr (Table parsed_df) \<and>
        read_csv E csv_path = Inr expected_df \<and> df_equals E parsed_df expected_df)"
  by (auto simp: compare_tables_def split: sum.splits parse_value.splits)

lemma run_test_passed:
  "run_test E target pdf_path csv_path fs = Inr ''TEST PASSED'' \<longleftrightarrow>
     (\<exists>source module parsed_df expected_df.
        fs (parser_path_of target) = Some source \<and>
        spec_from_file_location E (target @ ''_parser'') (parser_path_of target) = SpecWithLoader \<and>
        exec_module E source = Inr module \<and>
        call_parse E module pdf_path = Inr (Table parsed_df) \<and>
        read_csv E csv_path = Inr expected_df \<and> df_equals E parsed_df expected_df)"
proof (cases "fs (parser_path_of target)")
  case None
  then show ?thesis by (simp add: run_test_def Let_def)
next
  case (Some source)
  show ?thesis
  proof (cases "spec_from_file_location E (target @ ''_parser'') (parser_path_of target)")
    case NoSpec
    with Some show ?thesis by (simp add: run_test_def Let_def)
  next
    case SpecWithoutLoader
    with Some show ?thesis by (simp add: run_test_def Let_def)
  next
    case SpecWithLoader
    show ?thesis
    proof (cases "exec_module E source")
      case (Inl e)
      with Some SpecWithLoader show ?thesis by (simp add: run_test_def Let_def)
    next
      case (Inr module)
      have "run_test E target pdf_path csv_path fs = Inr ''TEST PASSED'' \<longleftrightarrow>
          compare_tables E module pdf_path csv_path = Inr ''TEST PASSED''"
        using Some SpecWithLoader Inr
        by (auto simp: run_test_def Let_def split: sum.splits)
      with Some SpecWithLoader Inr show ?thesis
        by (simp add: compare_tables_passed)
    qed
  qed
qed

text \<open>
  What the loop does with a completion signal when the final run_test returns a result:
  the line that follows the result is chosen by looking for the text "TEST PASSED" in it.
\<close>

lemma finish_round:
  assumes "chat_create E iteration (messages st) = Inr message"
    and "resp_tool_calls message = []"
    and "str_in ''FINISH'' (upper (case resp_content message of None \<Rightarrow> [] | Some c \<Rightarrow> c))"
    and "run_test E target pdf_path csv_path (disk st) = Inr final_result"
    and "iteration < max_iterations"
  shows "agent_loop E target pdf_path csv_path iteration st =
           (Finished, iteration,
            st\<lparr>messages := messages st @
                  [\<lparr>msg_role = ''assistant'',
                    msg_content = (case resp_content message of None \<Rightarrow> [] | Some c \<Rightarrow> c),
                    msg_tool_calls = None, msg_tool_call_id = None, msg_name = None\<rparr>],
               stdout := stdout st @
                  [''Agent: '' @ (case resp_content message of None \<Rightarrow> [] | Some c \<Rightarrow> c),
                   ''Agent complete. Final test: '' @ final_result,
                   if str_in ''TEST PASSED'' final_result then passed_line else failed_line]\<rparr>)"
proof -
  have "agent_round E target pdf_path csv_path iteration st =
          Return (st\<lparr>messages := messages st @
                  [\<lparr>msg_role = ''assistant'',
                    msg_content = (case resp_content message of None \<Rightarrow> [] | Some c \<Rightarrow> c),
                    msg_tool_calls = None, msg_tool_call_id = None, msg_name = None\<rparr>],
               stdout := stdout st @
                  [''Agent: '' @ (case resp_content message of None \<Rightarrow> [] | Some c \<Rightarrow> c),
                   ''Agent complete. Final test: '' @ final_result,
                   if str_in ''TEST PASSED'' final_result then passed_line else failed_line]\<rparr>)"
    using assms(1-4)
    by (simp add: agent_round_def Let_def append_message_def print_def)
  with assms(5) show ?thesis
    by (simp add: agent_loop.simps [of _ _ _ _ iteration])
qed



text \<open>The marker is found in lower case.\<close>

lemma upper_done_finish: "upper ''Done. finish'' = ''DONE. FINISH''"
  by code_simp

lemma finish_in_done: "str_in ''FINISH'' (upper ''Done. finish'')"
  by (simp add: upper_done_finish)

lemma closing_lines_differ: "passed_line \<noteq> failed_line"
  by (simp add: passed_line_def failed_line_def)





text \<open>
  The case the amended claim leaves open. The \<^verbatim>\<open>parse\<close> of the generated module raises
  an exception whose text is "TEST PASSED": the final test fails, its result contains that
  text, and the loop prints the line for success.
\<close>

lemma failed_test_announced_as_success:
  "run_test (demo_env_parsing (Inl (Exn OtherException ''TEST PASSED''))) ''icici''
       (pdf_path_of ''icici'') (csv_path_of ''icici'') (disk demo_state) =
     Inr ''TEST FAILED: TEST PASSED'' \<and>
   agent_loop (demo_env_parsing (Inl (Exn OtherException ''TEST PASSED''))) ''icici''
       (pdf_path_of ''icici'') (csv_path_of ''icici'') 0 demo_state =
     (Finished, 0,
      demo_state\<lparr>messages := initial_messages ''icici'' @
            [\<lparr>msg_role = ''assistant'', msg_content = ''Done. finish'', msg_tool_calls = None,
              msg_tool_call_id = None, msg_name = None\<rparr>],
         stdout := [''Agent: Done. finish'',
            ''Agent complete. Final test: TEST FAILED: TEST PASSED'', passed_line]\<rparr>)"
proof -
  let ?E = "demo_env_parsing (Inl (Exn OtherException ''TEST PASSED''))"
  let ?m = "\<lparr>resp_content = Some ''Done. finish'', resp_tool_calls = []\<rparr>"
  have h1: "chat_create ?E 0 (messages demo_state) = Inr ?m"
    by (simp add: demo_env_parsing_def)
  have h2: "resp_tool_calls ?m = []" by simp
  have h3: "str_in ''FINISH'' (upper (case resp_content ?m of None \<Rightarrow> [] | Some c \<Rightarrow> c))"
    using finish_in_done by simp
  have h4: "run_test ?E ''icici'' (pdf_path_of ''icici'') (csv_path_of ''icici'') (disk demo_state) =
      Inr ''TEST FAILED: TEST PASSED''"
    by (simp add: run_test_def compare_tables_def is_Exception_def demo_env_parsing_def
        demo_env_def demo_state_def demo_files_def)
  have h5: "0 < max_iterations" by (simp add: max_iterations_def)
  have found: "str_in ''TEST PASSED'' ''TEST FAILED: TEST PASSED''" by code_simp
  show ?thesis
    using finish_round [OF h1 h2 h3 h4 h5] h4 found by (simp add: demo_state_def)
qed

section \<open>The iteration ceiling\<close>

text \<open>
  The loop from any value of the counter: \<open>n\<close> is the counter when the loop is left.
\<close>

lemma agent_loop_bound:
  "iteration \<le> max_iterations \<Longrightarrow>
   agent_loop E target pdf_path csv_path iteration st = (out, n, st') \<Longrightarrow>
     iteration \<le> n \<and> n \<le> max_iterations \<and>
     (out = CeilingReached \<longleftrightarrow> n = max_iterations) \<and>
     (n = max_iterations \<longrightarrow> (\<exists>printed. stdout st' = printed @ [''Max iterations reached.''])) \<and>
     assistant_count (messages st') + iteration \<le> assistant_count (messages st) + max_iterations"
proof (induction E target pdf_path csv_path iteration st rule: agent_loop.induct)
  case (1 E target pdf_path csv_path iteration st)
  show ?case
  proof (cases "iteration < max_iterations")
    case False
    then have "agent_loop E target pdf_path csv_path iteration st =
        (CeilingReached, iteration, print ''Max iterations reached.'' st)"
      by (simp add: agent_loop.simps [of _ _ _ _ iteration])
    with "1.prems"(2) have "out = CeilingReached" and "n = iteration"
      and "st' = print ''Max iterations reached.'' st"
      by simp_all
    moreover from False "1.prems"(1) have "iteration = max_iterations" by simp
    ultimately show ?thesis by (simp add: print_def)
  next
    case True
    have ac: "assistant_count
        (messages (state_of (agent_round E target pdf_path csv_path iteration st)))
          \<le> assistant_count (messages st) + 1"
      by (rule agent_round_assistant_count)
    show ?thesis
    proof (cases "agent_round E target pdf_path csv_path iteration st")
      case (Continue st1)
      with True "1.prems"(2)
      have run: "agent_loop E target pdf_path csv_path (iteration + 1) st1 = (out, n, st')"
        by (simp add: agent_loop.simps [of _ _ _ _ iteration])
      from True have le: "iteration + 1 \<le> max_iterations" by simp
      from "1.IH" [OF True Continue le run] ac Continue show ?thesis by auto
    next
      case (Return st1)
      with True "1.prems"(2) ac show ?thesis
        by (auto simp: agent_loop.simps [of _ _ _ _ iteration])
    next
      case (Raise e st1)
      with True "1.prems"(2) ac show ?thesis
        by (auto simp: agent_loop.simps [of _ _ _ _ iteration])
    qed
  qed
qed

lemma assistant_count_initial: "assistant_count (initial_messages target) = 0"
  by (simp add: assistant_count_def initial_messages_def)

text \<open>
  C2. run_agent always returns a result (the loop is a total function). The counter
  \<open>n\<close> of completed passes never exceeds 30 and the transcript holds at most 30
  answers of the model; a run that ends by a completion signal or by an exception ends
  inside a pass, with \<open>n < 30\<close>, so the body runs at most 30 times. When 30 passes
  have completed the run ends with the outcome \<open>CeilingReached\<close>, which is no exception,
  and the last line printed is "Max iterations reached.".
\<close>

theorem run_agent_ceiling:
  "run_agent E target fs = (out, n, st') \<Longrightarrow>
     n \<le> 30 \<and> assistant_count (messages st') \<le> 30 \<and>
     (out = CeilingReached \<longleftrightarrow> n = 30) \<and>
     (n = 30 \<longrightarrow> (\<exists>printed. stdout st' = printed @ [''Max iterations reached.'']))"
proof -
  assume run: "run_agent E target fs = (out, n, st')"
  show ?thesis
  proof (cases "getenv_api_key E = None \<or> getenv_api_key E = Some [] \<or>
      fs (pdf_path_of target) = None \<or> fs (csv_path_of target) = None")
    case True
    with run have "out \<noteq> CeilingReached \<and> n = 0 \<and> messages st' = []"
      by (auto simp: run_agent_def Let_def split: if_splits)
    then show ?thesis by (simp add: assistant_count_def)
  next
    case False
    with run have "agent_loop E target (pdf_path_of target) (csv_path_of target) 0
        (initial_state target fs) = (out, n, st')"
      by (auto simp: run_agent_def Let_def split: if_splits)
    from agent_loop_bound [OF _ this] show ?thesis
      by (simp add: max_iterations_def initial_state_def assistant_count_initial)
  qed
qed

text \<open>A model that never signals completion and never asks for a tool.\<close>

lemma thinking_continues:
  assumes "\<And>i ms. chat_create E i ms = Inr \<lparr>resp_content = Some ''thinking'', resp_tool_calls = []\<rparr>"
  shows "fst (agent_loop E target pdf_path csv_path iteration st) = CeilingReached"
  using assms
proof (induction E target pdf_path csv_path iteration st rule: agent_loop.induct)
  case (1 E target pdf_path csv_path iteration st)
  show ?case
  proof (cases "iteration < max_iterations")
    case False
    then show ?thesis by (simp add: agent_loop.simps [of _ _ _ _ iteration])
  next
    case True
    have nf: "\<not> str_in ''FINISH'' (upper ''thinking'')" by code_simp
    have "agent_round E target pdf_path csv_path iteration st =
        Continue (print ''Agent: thinking''
          (append_message \<lparr>msg_role = ''assistant'', msg_content = ''thinking'',
             msg_tool_calls = None, msg_tool_call_id = None, msg_name = None\<rparr> st))"
      using "1.prems" nf by (simp add: agent_round_def Let_def)
    with True "1.IH" "1.prems" show ?thesis
      by (simp add: agent_loop.simps [of _ _ _ _ iteration])
  qed
qed

theorem run_agent_ceiling_witness:
  "fst (run_agent demo_env ''icici'' demo_run_files) = CeilingReached \<and>
   fst (snd (run_agent demo_env ''icici'' demo_run_files)) = 30 \<and>
   assistant_count (messages (snd (snd (run_agent demo_env ''icici'' demo_run_files)))) \<le> 30 \<and>
   (\<exists>printed. stdout (snd (snd (run_agent demo_env ''icici'' demo_run_files))) =
      printed @ [''Max iterations reached.''])"
proof -
  have loop: "run_agent demo_env ''icici'' demo_run_files =
      agent_loop demo_env ''icici'' (pdf_path_of ''icici'') (csv_path_of ''icici'') 0
        (initial_state ''icici'' demo_run_files)"
    by (simp add: run_agent_def Let_def demo_env_def demo_run_files_def pdf_path_of_def
        csv_path_of_def parser_path_of_def)
  have "fst (agent_loop demo_env ''icici'' (pdf_path_of ''icici'') (csv_path_of ''icici'') 0
        (initial_state ''icici'' demo_run_files)) = CeilingReached"
    by (rule thinking_continues) (simp add: demo_env_def)
  with loop have out: "fst (run_agent demo_env ''icici'' demo_run_files) = CeilingReached"
    by simp
  obtain n st' where run: "run_agent demo_env ''icici'' demo_run_files = (CeilingReached, n, st')"
    using out by (metis prod.collapse)
  from run_agent_ceiling [OF run] run show ?thesis by simp
qed

section \<open>The attempt counter\<close>

text \<open>
  What the executor of write_parser_code does with the counter it is given: at 3 or more
  it refuses and writes nothing; whenever it returns, it returns the counter plus one; it
  reports success only below the ceiling; and arguments that do not decode cost an
  attempt although nothing is written.
\<close>

lemma write_refused:
  "3 \<le> attempts0 \<Longrightarrow>
     tool_write_parser_code E target tc attempts0 fs =
       (Inr (''Max attempts (3) reached. Cannot write more code.'', attempts0 + 1), fs)"
  by (simp add: tool_write_parser_code_def Let_def)

lemma write_returns_incremented:
  "tool_write_parser_code E target tc attempts0 fs = (Inr (result, attempts1), fs') \<Longrightarrow>
     attempts1 = attempts0 + 1"
  by (auto simp: tool_write_parser_code_def Let_def split: if_splits sum.splits prod.splits)

lemma write_accepted_below_ceiling:
  "tool_write_parser_code E target tc attempts0 fs =
       (Inr (''Parser code written successfully.'', attempts1), fs') \<Longrightarrow>
     attempts0 < 3"
  by (auto simp: tool_write_parser_code_def Let_def split: if_splits sum.splits prod.splits)

lemma write_undecodable:
  assumes "attempts0 < 3" and "json_loads E (tc_arguments tc) = Inl e"
    and "exn_cls e = JSONDecodeError"
  shows "tool_write_parser_code E target tc attempts0 fs =
           (Inr (''Failed to parse tool arguments: '' @ str_exn e, attempts0 + 1), fs)"
  using assms by (simp add: tool_write_parser_code_def Let_def)

text \<open>The executor on the argument strings of the concrete environment.\<close>

lemma demo_file_write_ascii:
  "demo_file_write ''pass'' = None"
  "demo_file_write ''import pandas as pd'' = None"
  "demo_file_write (''# '' @ [CHR 0xE2, CHR 0x9C, CHR 0x85] @ '' parser'') =
     Some (Exn ValueError
        ([CHR 0x27] @ ''ascii'' @ [CHR 0x27] @ '' codec can'' @ [CHR 0x27] @
         ''t encode character: ordinal not in range(128)''))"
  by (simp_all add: demo_file_write_def)

lemma demo_write_code_5:
  "tool_write_parser_code demo_env ''icici'' (write_call ident args_code_5) attempts0 fs =
     (if 3 \<le> attempts0
      then (Inr (''Max attempts (3) reached. Cannot write more code.'', attempts0 + 1), fs)
      else (Inl (Exn TypeError ''write() argument must be str, not int''),
            fs(parser_path_of ''icici'' \<mapsto> [])))"
  by (simp add: tool_write_parser_code_def Let_def write_call_def args_code_5_def demo_env_def
      demo_loads_def write_code_def)

lemma demo_write_code_symbol:
  "tool_write_parser_code demo_env ''icici'' (write_call ident args_code_symbol) attempts0 fs =
     (if 3 \<le> attempts0
      then (Inr (''Max attempts (3) reached. Cannot write more code.'', attempts0 + 1), fs)
      else (Inl (Exn ValueError
              ([CHR 0x27] @ ''ascii'' @ [CHR 0x27] @ '' codec can'' @ [CHR 0x27] @
               ''t encode character: ordinal not in range(128)'')),
            fs(parser_path_of ''icici'' \<mapsto> [])))"
  using demo_file_write_ascii(3)
  by (simp add: tool_write_parser_code_def Let_def write_call_def args_code_symbol_def demo_env_def
      demo_loads_def write_code_def)

lemma demo_write_code_pass:
  "tool_write_parser_code demo_env ''icici'' (write_call ident args_code_pass) attempts0 fs =
     (if 3 \<le> attempts0
      then (Inr (''Max attempts (3) reached. Cannot write more code.'', attempts0 + 1), fs)
      else (Inr (''Parser code written successfully.'', attempts0 + 1),
            fs(parser_path_of ''icici'' \<mapsto> ''pass'')))"
  using demo_file_write_ascii(1)
  by (simp add: tool_write_parser_code_def Let_def write_call_def args_code_pass_def demo_env_def
      demo_loads_def write_code_def)

lemma demo_write_code_import:
  "tool_write_parser_code demo_env ''icici'' (write_call ident args_code_import) attempts0 fs =
     (if 3 \<le> attempts0
      then (Inr (''Max attempts (3) reached. Cannot write more code.'', attempts0 + 1), fs)
      else (Inr (''Parser code written successfully.'', attempts0 + 1),
            fs(parser_path_of ''icici'' \<mapsto> ''import pandas as pd'')))"
  using demo_file_write_ascii(2)
  by (simp add: tool_write_parser_code_def Let_def write_call_def args_code_import_def demo_env_def
      demo_loads_def write_code_def)

text \<open>The dispatch of a write_parser_code invocation that carries a token.\<close>

lemma write_call_fields:
  "tc_name (write_call ident arguments) = ''write_parser_code''"
  "tc_id (write_call ident arguments) = Some (IdStr ident)"
  "tc_arguments (write_call ident arguments) = arguments"
  by (simp_all add: write_call_def)

lemma dispatch_write_call:
  assumes "ident \<noteq> []"
  shows "dispatch E target pdf_path csv_path (write_call ident arguments) st =
     (case tool_write_parser_code E target (write_call ident arguments) (attempts st) (disk st) of
        (Inl e, fs') \<Rightarrow> tool_failed (write_call ident arguments) e (st\<lparr>disk := fs'\<rparr>)
      | (Inr (result, attempts'), fs') \<Rightarrow>
          tool_executed E (write_call ident arguments) (RStr result)
            (st\<lparr>attempts := attempts', disk := fs'\<rparr>))"
proof -
  have "tool_map (tc_name (write_call ident arguments)) = Some Tool_write_parser_code"
    by (simp add: write_call_fields tool_map_def)
  moreover have "\<not> missing_id (write_call ident arguments)"
    using assms by (simp add: missing_id_def write_call_fields)
  ultimately show ?thesis
    by (simp add: dispatch_def Let_def write_call_fields)
qed

lemma demo_json_dumps: "json_dumps demo_env (RStr s) = Inr ([CHR 0x22] @ s @ [CHR 0x22])"
  by (simp add: demo_env_def demo_dumps_def)

lemma demo_dispatch_code_5:
  assumes "ident \<noteq> []" and "attempts st < 3"
  shows "dispatch demo_env ''icici'' pdf_path csv_path (write_call ident args_code_5) st =
     (None,
      st\<lparr>messages := messages st @
            [\<lparr>msg_role = ''tool'',
              msg_content = ''Tool error: write() argument must be str, not int'',
              msg_tool_calls = None, msg_tool_call_id = Some (IdStr ident),
              msg_name = None\<rparr>],
         disk := (disk st)(parser_path_of ''icici'' \<mapsto> []),
         stdout := stdout st @
            [''Tool write_parser_code failed: write() argument must be str, not int'']\<rparr>)"
  using assms
  by (simp add: dispatch_write_call demo_write_code_5 tool_failed_def is_Exception_def
      id_or_unknown_def append_message_def print_def write_call_fields)

lemma demo_dispatch_code_symbol:
  assumes "ident \<noteq> []" and "attempts st < 3"
  shows "dispatch demo_env ''icici'' pdf_path csv_path (write_call ident args_code_symbol) st =
     (None,
      st\<lparr>messages := messages st @
            [\<lparr>msg_role = ''tool'',
              msg_content = ''Tool error: '' @ [CHR 0x27] @ ''ascii'' @ [CHR 0x27] @
                '' codec can'' @ [CHR 0x27] @ ''t encode character: ordinal not in range(128)'',
              msg_tool_calls = None, msg_tool_call_id = Some (IdStr ident),
              msg_name = None\<rparr>],
         disk := (disk st)(parser_path_of ''icici'' \<mapsto> []),
         stdout := stdout st @
            [''Tool write_parser_code failed: '' @ [CHR 0x27] @ ''ascii'' @ [CHR 0x27] @
                '' codec can'' @ [CHR 0x27] @ ''t encode character: ordinal not in range(128)'']\<rparr>)"
  using assms
  by (simp add: dispatch_write_call demo_write_code_symbol tool_failed_def is_Exception_def
      id_or_unknown_def append_message_def print_def write_call_fields)

lemma demo_dispatch_code_pass:
  assumes "ident \<noteq> []" and "attempts st < 3"
  shows "dispatch demo_env ''icici'' pdf_path csv_path (write_call ident args_code_pass) st =
     (None,
      st\<lparr>messages := messages st @
            [\<lparr>msg_role = ''tool'',
              msg_content = [CHR 0x22] @ ''Parser code written successfully.'' @ [CHR 0x22],
              msg_tool_calls = None, msg_tool_call_id = Some (IdStr ident),
              msg_name = Some ''write_parser_code''\<rparr>],
         attempts := attempts st + 1,
         disk := (disk st)(parser_path_of ''icici'' \<mapsto> ''pass''),
         stdout := stdout st @
            [''Tool write_parser_code executed: Parser code written successfully....'']\<rparr>)"
  using assms
  by (simp add: dispatch_write_call demo_write_code_pass tool_executed_def demo_json_dumps
      str_result_def append_message_def print_def write_call_fields)

lemma demo_dispatch_code_import:
  assumes "ident \<noteq> []" and "attempts st < 3"
  shows "dispatch demo_env ''icici'' pdf_path csv_path (write_call ident args_code_import) st =
     (None,
      st\<lparr>messages := messages st @
            [\<lparr>msg_role = ''tool'',
              msg_content = [CHR 0x22] @ ''Parser code written successfully.'' @ [CHR 0x22],
              msg_tool_calls = None, msg_tool_call_id = Some (IdStr ident),
              msg_name = Some ''write_parser_code''\<rparr>],
         attempts := attempts st + 1,
         disk := (disk st)(parser_path_of ''icici'' \<mapsto> ''import pandas as pd''),
         stdout := stdout st @
            [''Tool write_parser_code executed: Parser code written successfully....'']\<rparr>)"
  using assms
  by (simp add: dispatch_write_call demo_write_code_import tool_executed_def demo_json_dumps
      str_result_def append_message_def print_def write_call_fields)

text \<open>
  C10 fails on the code. The executor adds one to its own copy of the counter, and the
  loop learns the new value only from the returned pair. With the arguments
  \<^verbatim>\<open>{"code": 5}\<close> the decoding succeeds, \<^verbatim>\<open>f.write(5)\<close> raises TypeError after
  the file has been emptied, no pair is returned, and the loop's counter is still 0: the
  invocation has consumed no attempt.
\<close>

theorem raising_write_is_not_counted:
  "dispatch demo_env ''icici'' (pdf_path_of ''icici'') (csv_path_of ''icici'')
       (write_call ''call_1'' args_code_5) demo_state =
     (None,
      demo_state\<lparr>messages := initial_messages ''icici'' @
            [\<lparr>msg_role = ''tool'',
              msg_content = ''Tool error: write() argument must be str, not int'',
              msg_tool_calls = None, msg_tool_call_id = Some (IdStr ''call_1''),
              msg_name = None\<rparr>],
         attempts := 0,
         disk := demo_files(parser_path_of ''icici'' \<mapsto> []),
         stdout := [''Tool write_parser_code failed: write() argument must be str, not int'']\<rparr>)"
  by (simp add: demo_dispatch_code_5 demo_state_def)

text \<open>
  C1 fails on the code, by the same defect. Of four write_parser_code invocations, each
  with a token and with a string as its code, the first raises in the executor (its text
  cannot be encoded when it is written) and is not counted, so the fourth is accepted:
  its code is written to the file and the counter ends at 3.
\<close>

theorem fourth_write_is_accepted:
  "dispatch_all demo_env ''icici'' (pdf_path_of ''icici'') (csv_path_of ''icici'')
       [write_call ''call_1'' args_code_symbol, write_call ''call_2'' args_code_pass,
        write_call ''call_3'' args_code_pass, write_call ''call_4'' args_code_import]
       demo_state =
     (None,
      demo_state\<lparr>messages := initial_messages ''icici'' @
            [\<lparr>msg_role = ''tool'',
              msg_content = ''Tool error: '' @ [CHR 0x27] @ ''ascii'' @ [CHR 0x27] @
                '' codec can'' @ [CHR 0x27] @ ''t encode character: ordinal not in range(128)'',
              msg_tool_calls = None, msg_tool_call_id = Some (IdStr ''call_1''),
              msg_name = None\<rparr>,
             \<lparr>msg_role = ''tool'',
              msg_content = [CHR 0x22] @ ''Parser code written successfully.'' @ [CHR 0x22],
              msg_tool_calls = None, msg_tool_call_id = Some (IdStr ''call_2''),
              msg_name = Some ''write_parser_code''\<rparr>,
             \<lparr>msg_role = ''tool'',
              msg_content = [CHR 0x22] @ ''Parser code written successfully.'' @ [CHR 0x22],
              msg_tool_calls = None, msg_tool_call_id = Some (IdStr ''call_3''),
              msg_name = Some ''write_parser_code''\<rparr>,
             \<lparr>msg_role = ''tool'',
              msg_content = [CHR 0x22] @ ''Parser code written successfully.'' @ [CHR 0x22],
              msg_tool_calls = None, msg_tool_call_id = Some (IdStr ''call_4''),
              msg_name = Some ''write_parser_code''\<rparr>],
         attempts := 3,
         disk := demo_files(parser_path_of ''icici'' \<mapsto> ''import pandas as pd''),
         stdout := [''Tool write_parser_code failed: '' @ [CHR 0x27] @ ''ascii'' @ [CHR 0x27] @
                      '' codec can'' @ [CHR 0x27] @
                      ''t encode character: ordinal not in range(128)'',
                    ''Tool write_parser_code executed: Parser code written successfully....'',
                    ''Tool write_parser_code executed: Parser code written successfully....'',
                    ''Tool write_parser_code executed: Parser code written successfully....'']\<rparr>)"
  by (simp add: demo_dispatch_code_symbol demo_dispatch_code_pass demo_dispatch_code_import
      demo_state_def)

end
